theory Spec2Isabelle
  imports Complex_Main
begin

section \<open>Strings and the strconv / strings helpers of the Go standard library\<close>

text \<open>
  A Go string is a sequence of bytes, here a \<open>char list\<close>. The functions of this section
  work on the bytes, as their Go originals do: slicing, \<open>strconv.ParseUint\<close> in base 10,
  \<open>strings.HasPrefix\<close>, \<open>strings.TrimSuffix\<close>, \<open>strings.ReplaceAll\<close> of one byte by
  another, and \<open>strconv.FormatInt\<close> of a non-negative number. The functions of the
  standard library that read a string as Unicode text (\<open>strings.TrimSpace\<close>,
  \<open>strings.ToUpper\<close>, \<open>strings.ToLower\<close>) and \<open>strconv.ParseFloat\<close> are parameters of
  the model; see the section on functions of other packages.
\<close>

definition slice :: "string \<Rightarrow> nat \<Rightarrow> nat \<Rightarrow> string" where
  \<comment> \<open>Go's \<open>s[i:j]\<close> for \<open>i \<le> j \<le> len(s)\<close>.\<close>
  "slice s i j = take (j - i) (drop i s)"

definition isDigit :: "char \<Rightarrow> bool" where
  "isDigit c = (48 \<le> (of_char c :: nat) \<and> (of_char c :: nat) \<le> 57)"

definition digitVal :: "char \<Rightarrow> nat" where
  "digitVal c = (of_char c :: nat) - 48"

definition decimalValue :: "string \<Rightarrow> nat" where
  "decimalValue s = foldl (\<lambda>n c. 10 * n + digitVal c) 0 s"

definition ParseUint :: "string \<Rightarrow> nat option" where
  \<comment> \<open>\<open>strconv.ParseUint(s, 10, 64)\<close>: \<open>None\<close> is a non-nil error (empty input, a byte
      that is not a decimal digit, or a value that does not fit 64 bits).\<close>
  "ParseUint s =
     (if s = [] then None
      else if \<not> list_all isDigit s then None
      else if decimalValue s \<ge> 2 ^ 64 then None
      else Some (decimalValue s))"

definition HasPrefix :: "string \<Rightarrow> string \<Rightarrow> bool" where
  "HasPrefix s pre = (length pre \<le> length s \<and> take (length pre) s = pre)"

definition HasSuffix :: "string \<Rightarrow> string \<Rightarrow> bool" where
  "HasSuffix s suf = (length suf \<le> length s \<and> drop (length s - length suf) s = suf)"

definition TrimSuffix :: "string \<Rightarrow> string \<Rightarrow> string" where
  "TrimSuffix s suf = (if HasSuffix s suf then take (length s - length suf) s else s)"

definition ReplaceAllByte :: "string \<Rightarrow> char \<Rightarrow> char \<Rightarrow> string" where
  \<comment> \<open>\<open>strings.ReplaceAll(s, old, new)\<close> for one-byte \<open>old\<close> and \<open>new\<close>\<close>
  "ReplaceAllByte s old new = map (\<lambda>c. if c = old then new else c) s"

fun FormatUint :: "nat \<Rightarrow> string" where
  \<comment> \<open>\<open>strconv.FormatInt(int64(n), 10)\<close> for a slice index \<open>n\<close>\<close>
  "FormatUint n =
     (if n < 10 then [char_of (48 + n)]
      else FormatUint (n div 10) @ [char_of (48 + n mod 10)])"

section \<open>Data model\<close>

text \<open>
  \<open>orb.Point\<close> is the array \<open>[2]float64{lon, lat}\<close>. A \<open>float64\<close> is read as a real
  number throughout: rounding, infinities and NaN are outside this development.
\<close>

type_synonym Point = "real \<times> real"

definition Lon :: "Point \<Rightarrow> real" where
  "Lon p = fst p"

definition Lat :: "Point \<Rightarrow> real" where
  "Lat p = snd p"

section \<open>Position decoder\<close>

datatype pointError = BadPoint string
  \<comment> \<open>\<open>fmt.Errorf("bad point: %#q, must be in format ...", str, ...)\<close>\<close>

definition parseLatLng :: "string \<Rightarrow> pointError + Point" where
  \<comment> \<open>src/airspace.go, \<open>parseLatLng\<close>\<close>
  "parseLatLng str =
     (let formatError = BadPoint str in
      if length str \<noteq> 16 \<or> str ! 7 \<noteq> CHR '' '' then Inl formatError
      else
        let r1 = ParseUint (slice str 0 2);
            r2 = ParseUint (slice str 2 4);
            r3 = ParseUint (slice str 4 6)
        in if r1 = None \<or> r2 = None \<or> r3 = None then Inl formatError
        else
          let lat = real (the r1) + real (the r2) / 60 + real (the r3) / 3600;
              hemisphereNS = str ! 6
          in if hemisphereNS \<noteq> CHR ''S'' \<and> hemisphereNS \<noteq> CHR ''N'' then Inl formatError
          else
            let lat = (if hemisphereNS = CHR ''S'' then - lat else lat);
                r1 = ParseUint (slice str 8 11);
                r2 = ParseUint (slice str 11 13);
                r3 = ParseUint (slice str 13 15)
            in if r1 = None \<or> r2 = None \<or> r3 = None then Inl formatError
            else
              let lon = real (the r1) + real (the r2) / 60 + real (the r3) / 3600;
                  hemisphereEW = str ! 15
              in if hemisphereEW \<noteq> CHR ''W'' \<and> hemisphereEW \<noteq> CHR ''E''
                 then Inl formatError
                 else
                   let lon = (if hemisphereEW = CHR ''W'' then - lon else lon)
                   in Inr (lon, lat))"

definition parseLatLng_part_003 :: "string \<Rightarrow> pointError + Point" where
  \<comment> \<open>src/unnamed/part_003, \<open>parseLatLng\<close>: the other copy of the decoder in the repository\<close>
  "parseLatLng_part_003 str =
     (let returnedError = BadPoint str in
      if length str \<noteq> 16 \<or> str ! 7 \<noteq> CHR '' '' then Inl returnedError
      else
        let r1 = ParseUint (slice str 0 2);
            r2 = ParseUint (slice str 2 4);
            r3 = ParseUint (slice str 4 6)
        in if r1 = None \<or> r2 = None \<or> r3 = None then Inl returnedError
        else
          let lat = real (the r1) + real (the r2) / 60 + real (the r3) / 2600
          in if str ! 6 \<noteq> CHR ''S'' \<and> str ! 6 \<noteq> CHR ''N'' then Inl returnedError
          else
            let lat = (if str ! 6 = CHR ''S'' then - lat else lat);
                r1 = ParseUint (slice str 8 11);
                r2 = ParseUint (slice str 11 13);
                r3 = ParseUint (slice str 13 15)
            in if r1 = None \<or> r2 = None \<or> r3 = None then Inl returnedError
            else
              let lng = real (the r1) + real (the r2) / 60 + real (the r3) / 2600
              in if str ! 15 \<noteq> CHR ''W'' \<and> str ! 15 \<noteq> CHR ''E''
                 then Inl returnedError
                 else
                   let lng = (if str ! 15 = CHR ''W'' then - lng else lng)
                   in Inr (lng, lat))"

definition malformedPosition :: "string \<Rightarrow> bool" where
  \<comment> \<open>the failure condition in the specification's words: wrong length, no space at the
      separator offset, a digit group that is not an unsigned integer, or a hemisphere
      letter that is not valid for its axis\<close>
  "malformedPosition str =
     (length str \<noteq> 16 \<or> str ! 7 \<noteq> CHR '' '' \<or>
      ParseUint (slice str 0 2) = None \<or> ParseUint (slice str 2 4) = None \<or>
      ParseUint (slice str 4 6) = None \<or>
      ParseUint (slice str 8 11) = None \<or> ParseUint (slice str 11 13) = None \<or>
      ParseUint (slice str 13 15) = None \<or>
      (str ! 6 \<noteq> CHR ''N'' \<and> str ! 6 \<noteq> CHR ''S'') \<or>
      (str ! 15 \<noteq> CHR ''E'' \<and> str ! 15 \<noteq> CHR ''W''))"

section \<open>Classification tables\<close>

type_synonym table = "(string \<times> bool) list"

definition lookup :: "table \<Rightarrow> string \<Rightarrow> bool" where
  \<comment> \<open>indexing a Go \<open>map[string]bool\<close>: a missing key reads as \<open>false\<close>\<close>
  "lookup m k = (case map_of m k of None \<Rightarrow> False | Some b \<Rightarrow> b)"

definition prohibitedAirspaceClasses :: table where
  "prohibitedAirspaceClasses =
     [(''A'', True), (''B'', True), (''C'', True), (''D'', True), (''E'', True),
      (''F'', False), (''G'', False)]"

definition prohibitedTypes :: table where
  "prohibitedTypes =
     [(''ATZ'', True), (''AWY'', True), (''CTA'', True), (''CTR'', True), (''MATZ'', True),
      (''P'', True), (''R'', True), (''RAT'', True), (''RMZ'', True), (''TMA'', True),
      (''TRA'', True), (''TMZ'', True)]"

definition dangerTypes :: table where
  "dangerTypes =
     [(''AIAA'', True), (''D'', True), (''D_OTHER'', True), (''DZ'', True), (''GLIDER'', True),
      (''GVS'', False), (''HIRTA'', True), (''ILS'', False), (''LASER'', True),
      (''NOATZ'', True), (''UL'', True)]"

record Circle =
  c_Radius :: real
  c_Centre :: Point

record Volume =
  v_ID :: string
  v_Name :: string
  v_Type :: string
  v_Class :: string
  v_Sequence :: int
  v_Lower :: real
  v_Upper :: real
  v_ClearanceRequired :: bool
  v_Danger :: bool
  v_Circle :: Circle
  v_Polygon :: "Point list"

record Feature =
  f_ID :: string
  f_Name :: string
  f_Type :: string
  f_Class :: string
  f_Geometry :: "Volume list"

definition ClearanceRequired :: "Feature \<Rightarrow> bool" where
  "ClearanceRequired f = (lookup prohibitedAirspaceClasses (f_Class f) \<or> lookup prohibitedTypes (f_Type f))"

definition Danger :: "Feature \<Rightarrow> bool" where
  "Danger f = lookup dangerTypes (f_Type f)"

section \<open>The raw records decoded from YAML\<close>

record rawCircle =
  circle_Radius :: string
  circle_Centre :: string

record rawArc =
  arc_Dir :: string
  arc_Radius :: string
  arc_Centre :: string
  arc_To :: string

record rawBoundary =
  b_Circle :: rawCircle
  b_Line :: "string list"
  b_Arc :: rawArc

record rawGeometry =
  g_ID :: string
  g_Name :: string
  g_Class :: string
  g_Seqno :: int
  g_Boundary :: "rawBoundary list"
  g_Lower :: string
  g_Upper :: string

record rawAirspace =
  a_ID :: string
  a_Name :: string
  a_Type :: string
  a_LocalType :: string
  a_ControlType :: string
  a_Class :: string
  a_Geometry :: "rawGeometry list"

record airspaceResponse =
  Airspace :: "rawAirspace list"

section \<open>Functions of other packages\<close>

text \<open>
  The package calls functions that live outside the repository: the YAML decoder, the
  Unicode-aware string functions \<open>strings.TrimSpace\<close>, \<open>strings.ToUpper\<close> and
  \<open>strings.ToLower\<close>, \<open>strconv.ParseFloat\<close>, and the \<open>orb\<close> geometry library. They are
  parameters of the model, collected in one record. \<open>strconv_ParseFloat\<close> returns the
  pair Go returns: the number, and the error, which is nil (\<open>None\<close>), a syntax error or
  a range error. \<open>yaml_Unmarshal\<close> returns \<open>None\<close> when \<open>yaml.Unmarshal\<close> reports an
  error.
\<close>

datatype parseError = ErrSyntax | ErrRange

record library =
  yaml_Unmarshal :: "string \<Rightarrow> airspaceResponse option"
  strings_TrimSpace :: "string \<Rightarrow> string"
  strings_ToUpper :: "string \<Rightarrow> string"
  strings_ToLower :: "string \<Rightarrow> string"
  strconv_ParseFloat :: "string \<Rightarrow> real \<times> parseError option"
  geo_Bearing :: "Point \<Rightarrow> Point \<Rightarrow> real"
  orb_EarthRadius :: real
  project_ToMercator :: "Point \<Rightarrow> Point"
  planar_Distance :: "Point \<Rightarrow> Point \<Rightarrow> real"
  planar_RingContains :: "Point list \<Rightarrow> Point \<Rightarrow> bool"

section \<open>Height and distance decoders\<close>

datatype warning =
  CouldNotParseFlightLevel string
  | CouldNotParseHeight string
  | InvalidDistance string

text \<open>The decoders return their number together with the lines they write to the log.\<close>

definition decodeHeight :: "library \<Rightarrow> string \<Rightarrow> real \<times> warning list" where
  "decodeHeight lib h0 =
     (let h = strings_ToUpper lib (strings_TrimSpace lib h0) in
      if h = [] \<or> h = ''SFC'' then (0, [])
      else if HasPrefix h ''FL'' then
        (let r = strconv_ParseFloat lib (drop 2 h)
         in (fst r * 100, if snd r \<noteq> None then [CouldNotParseFlightLevel h] else []))
      else
        (let h = strings_TrimSpace lib (TrimSuffix h ''FT'');
             r = strconv_ParseFloat lib h
         in (fst r, if snd r \<noteq> None then [CouldNotParseHeight h] else [])))"

definition nautMilesToMeters :: "real \<Rightarrow> real" where
  "nautMilesToMeters nm = nm * 1852"

definition decodeDistance :: "library \<Rightarrow> string \<Rightarrow> real \<times> warning list" where
  "decodeDistance lib d =
     (let r = strconv_ParseFloat lib (TrimSuffix d '' nm'')
      in (nautMilesToMeters (fst r), if snd r \<noteq> None then [InvalidDistance d] else []))"




section \<open>Arc rasterizer\<close>

definition toRadians :: "real \<Rightarrow> real" where
  "toRadians angle = pi / 180 * angle"

definition toDegrees :: "real \<Rightarrow> real" where
  "toDegrees angle = 180 / pi * angle"

definition Atan2 :: "real \<Rightarrow> real \<Rightarrow> real" where
  \<comment> \<open>\<open>math.Atan2(y, x)\<close> on real numbers\<close>
  "Atan2 y x =
     (if 0 < x then arctan (y / x)
      else if x < 0 then (if 0 \<le> y then arctan (y / x) + pi else arctan (y / x) - pi)
      else if 0 < y then pi / 2
      else if y < 0 then - (pi / 2)
      else 0)"

definition destinationPoint :: "library \<Rightarrow> Point \<Rightarrow> real \<Rightarrow> real \<Rightarrow> Point" where
  "destinationPoint lib start bearing distance =
     (let angularDistance = distance / orb_EarthRadius lib;
          bearingRadians = toRadians bearing;
          lat1 = toRadians (Lat start);
          lon1 = toRadians (Lon start);
          sinLat2 = sin lat1 * cos angularDistance
                    + cos lat1 * sin angularDistance * cos bearingRadians;
          lat2 = arcsin sinLat2;
          x = cos angularDistance - sin lat1 * sinLat2;
          y = sin bearingRadians * sin angularDistance * cos lat1;
          lon2 = lon1 + Atan2 y x
      in (toDegrees lon2, toDegrees lat2))"

definition arcAngles :: "library \<Rightarrow> Point \<Rightarrow> Point \<Rightarrow> Point \<Rightarrow> real \<Rightarrow> real \<times> real" where
  \<comment> \<open>the start and end bearing of \<open>arcToPolygon\<close> after the sweep normalisation\<close>
  "arcAngles lib centre initialPoint to dir =
     (let initialAngleDeg = geo_Bearing lib centre initialPoint;
          finalAngleDeg = geo_Bearing lib centre to
      in if dir > 0
         then (if finalAngleDeg < initialAngleDeg
               then (initialAngleDeg, finalAngleDeg + 360)
               else (initialAngleDeg, finalAngleDeg))
         else (if finalAngleDeg > initialAngleDeg
               then (initialAngleDeg + 360, finalAngleDeg)
               else (initialAngleDeg, finalAngleDeg)))"

function arcLoop ::
  "library \<Rightarrow> Point \<Rightarrow> real \<Rightarrow> real \<Rightarrow> real \<Rightarrow> real \<Rightarrow> Point list \<Rightarrow> Point list" where
  \<comment> \<open>\<open>for a := initialAngleDeg; dir*a < dir*finalAngleDeg; a += dir * 10\<close>\<close>
  "arcLoop lib centre radius dir finalAngleDeg a poly =
     (if dir * a < dir * finalAngleDeg
      then arcLoop lib centre radius dir finalAngleDeg (a + dir * 10)
             (poly @ [destinationPoint lib centre a radius])
      else poly)"
  by pat_completeness auto
termination
proof (relation "measure (\<lambda>(lib, centre, radius, dir, finalAngleDeg, a, poly).
          nat \<lceil>(dir * finalAngleDeg - dir * a) / (10 * dir * dir)\<rceil>)", goal_cases)
  case 1
  show ?case by simp
next
  case (2 lib centre radius dir finalAngleDeg a poly)
  then have d: "dir \<noteq> 0" by auto
  then have dd: "0 < 10 * dir * dir"
    by (simp add: zero_less_mult_iff not_less less_le)
  define q where "q = (dir * finalAngleDeg - dir * a) / (10 * dir * dir)"
  have qpos: "0 < q" using 2 dd unfolding q_def by simp
  have step: "(dir * finalAngleDeg - dir * (a + dir * 10)) / (10 * dir * dir) = q - 1"
    using d unfolding q_def by (simp add: field_simps)
  have "0 < \<lceil>q\<rceil>" using qpos by simp
  then have "nat \<lceil>q - 1\<rceil> < nat \<lceil>q\<rceil>" by simp
  then show ?case using step unfolding q_def by simp
qed

declare arcLoop.simps [simp del]

definition arcToPolygon ::
  "library \<Rightarrow> Point \<Rightarrow> real \<Rightarrow> Point \<Rightarrow> Point \<Rightarrow> real \<Rightarrow> Point list" where
  "arcToPolygon lib centre radius initialPoint to dir =
     (let angles = arcAngles lib centre initialPoint to dir;
          poly = arcLoop lib centre radius dir (snd angles) (fst angles) []
      in poly @ [to])"

section \<open>Feature and Volume normaliser\<close>

datatype error =
  FailedToUnmarshal
  | BadCircle rawBoundary pointError
  | BadLine rawBoundary pointError
  | BadArc rawBoundary pointError

definition resolveAirspaceType :: "string \<Rightarrow> string \<Rightarrow> string" where
  "resolveAirspaceType airspaceType localType =
     (if airspaceType = ''OTHER'' \<or> airspaceType = ''D_OTHER'' then localType else airspaceType)"

definition resolveFeatureID :: "library \<Rightarrow> string \<Rightarrow> string \<Rightarrow> nat \<Rightarrow> string" where
  "resolveFeatureID lib id0 name index =
     (let id1 = strings_TrimSpace lib id0 in
      if id1 = [] then
        (let safeName = strings_ToLower lib (ReplaceAllByte name (CHR '' '') (CHR ''-''))
         in safeName @ ''-'' @ FormatUint index)
      else id1)"

definition pointOf :: "pointError + Point \<Rightarrow> Point" where
  \<comment> \<open>the first result of \<open>parseLatLng\<close>: the zero Point when the second is an error\<close>
  "pointOf r = (case r of Inl e \<Rightarrow> (0, 0) | Inr p \<Rightarrow> p)"

text \<open>
  The body of the loop over \<open>g.Boundary\<close> in \<open>processGeometry\<close> has three parts, one per
  kind of primitive. The loop state is the Volume built so far and \<open>currentPos\<close>.
\<close>

definition processCircle :: "library \<Rightarrow> rawBoundary \<Rightarrow> Volume \<Rightarrow> error + Volume" where
  "processCircle lib b vol =
     (if circle_Radius (b_Circle b) \<noteq> [] then
        (case parseLatLng (circle_Centre (b_Circle b)) of
           Inl err \<Rightarrow> Inl (BadCircle b err)
         | Inr c \<Rightarrow>
             Inr (vol\<lparr>v_Circle :=
                    \<lparr>c_Radius = fst (decodeDistance lib (circle_Radius (b_Circle b))),
                     c_Centre = c\<rparr>\<rparr>))
      else Inr vol)"

fun processLine :: "rawBoundary \<Rightarrow> string list \<Rightarrow> Volume \<Rightarrow> Point \<Rightarrow> error + Volume \<times> Point" where
  "processLine b [] vol currentPos = Inr (vol, currentPos)"
| "processLine b (l # ls) vol currentPos =
     (case parseLatLng l of
        Inl err \<Rightarrow> Inl (BadLine b err)
      | Inr p \<Rightarrow> processLine b ls (vol\<lparr>v_Polygon := v_Polygon vol @ [p]\<rparr>) p)"

definition processArc :: "library \<Rightarrow> rawBoundary \<Rightarrow> Volume \<Rightarrow> Point \<Rightarrow> error + Volume" where
  "processArc lib b vol currentPos =
     (if arc_Radius (b_Arc b) \<noteq> [] then
        (case parseLatLng (arc_To (b_Arc b)) of
           Inl err \<Rightarrow> Inl (BadArc b err)
         | Inr to \<Rightarrow>
             (let radius = fst (decodeDistance lib (arc_Radius (b_Arc b)));
                  centre = pointOf (parseLatLng (arc_Centre (b_Arc b)));
                  dir = (if arc_Dir (b_Arc b) = ''ccw'' then - 1 else 1);
                  arc = arcToPolygon lib centre radius currentPos to dir
              in Inr (vol\<lparr>v_Polygon := v_Polygon vol @ arc\<rparr>)))
      else Inr vol)"

definition processPrimitive ::
  "library \<Rightarrow> rawBoundary \<Rightarrow> Volume \<Rightarrow> Point \<Rightarrow> error + Volume \<times> Point" where
  "processPrimitive lib b vol currentPos =
     (case processCircle lib b vol of
        Inl e \<Rightarrow> Inl e
      | Inr vol1 \<Rightarrow>
          (case processLine b (b_Line b) vol1 currentPos of
             Inl e \<Rightarrow> Inl e
           | Inr st \<Rightarrow>
               (case processArc lib b (fst st) (snd st) of
                  Inl e \<Rightarrow> Inl e
                | Inr vol3 \<Rightarrow> Inr (vol3, snd st))))"

fun processBoundary ::
  "library \<Rightarrow> rawBoundary list \<Rightarrow> Volume \<Rightarrow> Point \<Rightarrow> error + Volume" where
  "processBoundary lib [] vol currentPos = Inr vol"
| "processBoundary lib (b # bs) vol currentPos =
     (case processPrimitive lib b vol currentPos of
        Inl e \<Rightarrow> Inl e
      | Inr st \<Rightarrow> processBoundary lib bs (fst st) (snd st))"

definition processGeometry :: "library \<Rightarrow> rawGeometry \<Rightarrow> Feature \<Rightarrow> error + Volume" where
  "processGeometry lib g feat =
     (let volID = (if g_ID g = [] then f_ID feat else g_ID g);
          volName = (if g_Name g = [] then f_Name feat else g_Name g);
          volClass = (if g_Class g = [] then f_Class feat else g_Class g);
          vol = \<lparr>v_ID = volID, v_Name = volName, v_Type = f_Type feat, v_Class = volClass,
                 v_Sequence = g_Seqno g,
                 v_Lower = fst (decodeHeight lib (g_Lower g)),
                 v_Upper = fst (decodeHeight lib (g_Upper g)),
                 v_ClearanceRequired = ClearanceRequired feat,
                 v_Danger = Danger feat,
                 v_Circle = \<lparr>c_Radius = 0, c_Centre = (0, 0)\<rparr>,
                 v_Polygon = []\<rparr>
      in processBoundary lib (g_Boundary g) vol (0, 0))"

fun processGeometries :: "library \<Rightarrow> rawGeometry list \<Rightarrow> Feature \<Rightarrow> error + Feature" where
  \<comment> \<open>the loop over \<open>f.Geometry\<close> in \<open>normalise\<close>\<close>
  "processGeometries lib [] feat = Inr feat"
| "processGeometries lib (g # gs) feat =
     (case processGeometry lib g feat of
        Inl err \<Rightarrow> Inl err
      | Inr vol \<Rightarrow> processGeometries lib gs (feat\<lparr>f_Geometry := f_Geometry feat @ [vol]\<rparr>))"

fun normaliseFrom ::
  "library \<Rightarrow> nat \<Rightarrow> rawAirspace list \<Rightarrow> Feature list \<Rightarrow> error + Feature list" where
  \<comment> \<open>the loop \<open>for i, f := range a.Airspace\<close>, from index \<open>i\<close> on\<close>
  "normaliseFrom lib i [] features = Inr features"
| "normaliseFrom lib i (f # fs) features =
     (let airspaceType = resolveAirspaceType (a_Type f) (a_LocalType f);
          featureID = resolveFeatureID lib (a_ID f) (a_Name f) i;
          feat = \<lparr>f_ID = featureID, f_Name = a_Name f, f_Type = airspaceType,
                  f_Class = a_Class f, f_Geometry = []\<rparr>
      in case processGeometries lib (a_Geometry f) feat of
           Inl err \<Rightarrow> Inl err
         | Inr feat1 \<Rightarrow> normaliseFrom lib (Suc i) fs (features @ [feat1]))"

definition normalise :: "library \<Rightarrow> airspaceResponse \<Rightarrow> error + Feature list" where
  "normalise lib a = normaliseFrom lib 0 (Airspace a) []"

definition Decode :: "library \<Rightarrow> string \<Rightarrow> error + Feature list" where
  "Decode lib data =
     (case yaml_Unmarshal lib data of
        None \<Rightarrow> Inl FailedToUnmarshal
      | Some a \<Rightarrow> normalise lib a)"

text \<open>
  Vocabulary for statements about failing decodes. A circle or arc is present in a
  primitive when its struct is not the zero value. \<open>hasMalformedCoordinate\<close> reads the
  specification: some coordinate string of a present circle, line or arc does not parse.
  \<open>rejectedPrimitive\<close> names the coordinates whose parse error \<open>processGeometry\<close>
  returns: the centre of a circle with a radius, a point of a line, the end point of an
  arc with a radius.
\<close>

definition emptyCircle :: rawCircle where
  "emptyCircle = \<lparr>circle_Radius = [], circle_Centre = []\<rparr>"

definition emptyArc :: rawArc where
  "emptyArc = \<lparr>arc_Dir = [], arc_Radius = [], arc_Centre = [], arc_To = []\<rparr>"

definition malformed :: "string \<Rightarrow> bool" where
  "malformed str = isl (parseLatLng str)"

definition hasMalformedCoordinate :: "rawBoundary \<Rightarrow> bool" where
  "hasMalformedCoordinate b =
     ((b_Circle b \<noteq> emptyCircle \<and> malformed (circle_Centre (b_Circle b))) \<or>
      list_ex malformed (b_Line b) \<or>
      (b_Arc b \<noteq> emptyArc \<and>
         (malformed (arc_Centre (b_Arc b)) \<or> malformed (arc_To (b_Arc b)))))"

definition rejectedPrimitive :: "rawBoundary \<Rightarrow> bool" where
  "rejectedPrimitive b =
     ((circle_Radius (b_Circle b) \<noteq> [] \<and> malformed (circle_Centre (b_Circle b))) \<or>
      list_ex malformed (b_Line b) \<or>
      (arc_Radius (b_Arc b) \<noteq> [] \<and> malformed (arc_To (b_Arc b))))"

definition primitivesOf :: "airspaceResponse \<Rightarrow> rawBoundary list" where
  \<comment> \<open>every boundary primitive of the document, in document order\<close>
  "primitivesOf a = concat (map g_Boundary (concat (map a_Geometry (Airspace a))))"

fun isCoordinateError :: "error \<Rightarrow> bool" where
  "isCoordinateError FailedToUnmarshal = False"
| "isCoordinateError (BadCircle b e) = True"
| "isCoordinateError (BadLine b e) = True"
| "isCoordinateError (BadArc b e) = True"

definition failsOnCoordinate :: "error + 'a \<Rightarrow> bool" where
  \<comment> \<open>the result is an error, with no value beside it, and the error is a coordinate's\<close>
  "failsOnCoordinate r = (case r of Inl e \<Rightarrow> isCoordinateError e | Inr x \<Rightarrow> False)"

section \<open>Containment query engine\<close>

definition isEnclosedBy :: "library \<Rightarrow> Point \<Rightarrow> Volume \<Rightarrow> bool" where
  "isEnclosedBy lib p vol =
     (if c_Radius (v_Circle vol) \<noteq> 0 \<and>
         planar_Distance lib (project_ToMercator lib p)
           (project_ToMercator lib (c_Centre (v_Circle vol))) \<le> c_Radius (v_Circle vol)
      then True
      else if length (v_Polygon vol) > 0 \<and> planar_RingContains lib (v_Polygon vol) p
      then True
      else False)"

definition EnclosingVolumes :: "library \<Rightarrow> Point \<Rightarrow> (string \<times> Feature) list \<Rightarrow> Volume list" where
  \<comment> \<open>\<open>features\<close> is a Go map; the list holds its entries in the order the \<open>range\<close>
      loop visits them\<close>
  "EnclosingVolumes lib point features =
     concat (map (\<lambda>kf. filter (isEnclosedBy lib point) (f_Geometry (snd kf))) features)"

section \<open>A concrete library for examples\<close>

text \<open>
  To run the model on concrete inputs the library parameters need values. The ones
  below are used on the inputs of the examples only, where they give what the Go
  functions give: trimming and case mapping of ASCII strings (other bytes are left as
  they are), a parser for plain decimal digit strings (which \<open>strconv.ParseFloat\<close> reads
  as their decimal value; every other string is a syntax error here), the initial
  great-circle bearing, the spherical Mercator projection, the Euclidean distance and
  the even-odd crossing test.
\<close>

definition isSpace :: "char \<Rightarrow> bool" where
  \<comment> \<open>the ASCII white space: tab, LF, VT, FF, CR, space\<close>
  "isSpace c = ((9 \<le> (of_char c :: nat) \<and> (of_char c :: nat) \<le> 13) \<or> (of_char c :: nat) = 32)"

definition asciiTrimSpace :: "string \<Rightarrow> string" where
  "asciiTrimSpace s = rev (dropWhile isSpace (rev (dropWhile isSpace s)))"

definition upperChar :: "char \<Rightarrow> char" where
  "upperChar c =
     (if 97 \<le> (of_char c :: nat) \<and> (of_char c :: nat) \<le> 122
      then char_of ((of_char c :: nat) - 32) else c)"

definition lowerChar :: "char \<Rightarrow> char" where
  "lowerChar c =
     (if 65 \<le> (of_char c :: nat) \<and> (of_char c :: nat) \<le> 90
      then char_of ((of_char c :: nat) + 32) else c)"

definition asciiToUpper :: "string \<Rightarrow> string" where
  "asciiToUpper s = map upperChar s"

definition asciiToLower :: "string \<Rightarrow> string" where
  "asciiToLower s = map lowerChar s"

definition digitsParseFloat :: "string \<Rightarrow> real \<times> parseError option" where
  "digitsParseFloat s =
     (if s \<noteq> [] \<and> list_all isDigit s then (real (decimalValue s), None)
      else (0, Some ErrSyntax))"

definition sphericalBearing :: "Point \<Rightarrow> Point \<Rightarrow> real" where
  "sphericalBearing a b =
     (let dLon = toRadians (Lon b - Lon a);
          y = sin dLon * cos (toRadians (Lat b));
          x = cos (toRadians (Lat a)) * sin (toRadians (Lat b))
              - sin (toRadians (Lat a)) * cos (toRadians (Lat b)) * cos dLon
      in toDegrees (Atan2 y x))"

definition sphericalMercator :: "real \<Rightarrow> Point \<Rightarrow> Point" where
  "sphericalMercator r p = (r * pi / 180 * Lon p, r * ln (tan ((90 + Lat p) * pi / 360)))"

definition euclideanDistance :: "Point \<Rightarrow> Point \<Rightarrow> real" where
  "euclideanDistance a b = sqrt ((fst a - fst b) * (fst a - fst b) + (snd a - snd b) * (snd a - snd b))"

definition edgeCrosses :: "Point \<Rightarrow> Point \<times> Point \<Rightarrow> bool" where
  \<comment> \<open>the ray from \<open>p\<close> towards increasing longitude crosses the edge\<close>
  "edgeCrosses p e =
     (let a = fst e; b = snd e in
      (snd p < snd a) \<noteq> (snd p < snd b) \<and>
      fst p < (fst b - fst a) * (snd p - snd a) / (snd b - snd a) + fst a)"

definition evenOddContains :: "Point list \<Rightarrow> Point \<Rightarrow> bool" where
  "evenOddContains ring p =
     (ring \<noteq> [] \<and> odd (length (filter (edgeCrosses p) (zip ring (tl ring @ [hd ring])))))"

definition exampleLibrary :: library where
  "exampleLibrary =
     \<lparr>yaml_Unmarshal = Map.empty,
      strings_TrimSpace = asciiTrimSpace,
      strings_ToUpper = asciiToUpper,
      strings_ToLower = asciiToLower,
      strconv_ParseFloat = digitsParseFloat,
      geo_Bearing = sphericalBearing,
      orb_EarthRadius = 6378137,
      project_ToMercator = sphericalMercator 6378137,
      planar_Distance = euclideanDistance,
      planar_RingContains = evenOddContains\<rparr>"

definition singleVolumeDocument :: "rawBoundary list \<Rightarrow> airspaceResponse" where
  \<comment> \<open>a document with one feature, one geometry sequence and the given boundary\<close>
  "singleVolumeDocument bs =
     \<lparr>Airspace =
        [\<lparr>a_ID = ''aberdeen-cta'', a_Name = ''ABERDEEN CTA'', a_Type = ''CTA'',
          a_LocalType = [], a_ControlType = [], a_Class = ''D'',
          a_Geometry =
            [\<lparr>g_ID = [], g_Name = [], g_Class = [], g_Seqno = 1, g_Boundary = bs,
              g_Lower = ''1500 ft'', g_Upper = ''FL115''\<rparr>]\<rparr>]\<rparr>"

definition circleWithoutRadius :: rawBoundary where
  \<comment> \<open>\<open>- circle: {centre: "fifty north"}\<close>\<close>
  "circleWithoutRadius =
     \<lparr>b_Circle = \<lparr>circle_Radius = [], circle_Centre = ''fifty north''\<rparr>,
      b_Line = [], b_Arc = emptyArc\<rparr>"

definition arcWithBadCentre :: rawBoundary where
  \<comment> \<open>\<open>- arc: {dir: cw, radius: 10 nm, centre: "fifty north", to: 572153N 0015835W}\<close>\<close>
  "arcWithBadCentre =
     \<lparr>b_Circle = emptyCircle, b_Line = [],
      b_Arc = \<lparr>arc_Dir = ''cw'', arc_Radius = ''10 nm'', arc_Centre = ''fifty north'',
               arc_To = ''572153N 0015835W''\<rparr>\<rparr>"

definition lineWithBadPoint :: rawBoundary where
  \<comment> \<open>\<open>- line: [572153N 0015835W, 5721N 00158W]\<close>\<close>
  "lineWithBadPoint =
     \<lparr>b_Circle = emptyCircle, b_Line = [''572153N 0015835W'', ''5721N 00158W''],
      b_Arc = emptyArc\<rparr>"

definition exampleVolume :: "real \<Rightarrow> Point list \<Rightarrow> Volume" where
  \<comment> \<open>a Volume with a circle of the given radius around the origin and the given ring\<close>
  "exampleVolume r ring =
     \<lparr>v_ID = ''v'', v_Name = ''V'', v_Type = ''CTR'', v_Class = ''D'', v_Sequence = 1,
      v_Lower = 0, v_Upper = 1500, v_ClearanceRequired = True, v_Danger = False,
      v_Circle = \<lparr>c_Radius = r, c_Centre = (0, 0)\<rparr>, v_Polygon = ring\<rparr>"

definition tenDegreeSquare :: "Point list" where
  "tenDegreeSquare = [(- 10, - 10), (10, - 10), (10, 10), (- 10, 10)]"

section \<open>Properties of the position decoder\<close>

lemmas digit_eval = slice_def ParseUint_def isDigit_def decimalValue_def digitVal_def

lemma digitVal_le: "isDigit a \<Longrightarrow> digitVal a \<le> 9"
  unfolding isDigit_def digitVal_def by arith

lemma ParseUint_two:
  "isDigit a \<Longrightarrow> isDigit b \<Longrightarrow> ParseUint [a, b] = Some (10 * digitVal a + digitVal b)"
proof -
  assume "isDigit a" "isDigit b"
  then have "digitVal a \<le> 9" "digitVal b \<le> 9"
    by (simp_all add: digitVal_le)
  then have "10 * digitVal a + digitVal b < 2 ^ 64" by simp
  moreover have "decimalValue [a, b] = 10 * digitVal a + digitVal b"
    by (simp add: decimalValue_def)
  ultimately show ?thesis
    using \<open>isDigit a\<close> \<open>isDigit b\<close> by (simp add: ParseUint_def)
qed

lemma ParseUint_three:
  "isDigit a \<Longrightarrow> isDigit b \<Longrightarrow> isDigit c \<Longrightarrow>
   ParseUint [a, b, c] = Some (100 * digitVal a + 10 * digitVal b + digitVal c)"
proof -
  assume "isDigit a" "isDigit b" "isDigit c"
  then have "digitVal a \<le> 9" "digitVal b \<le> 9" "digitVal c \<le> 9"
    by (simp_all add: digitVal_le)
  then have "100 * digitVal a + 10 * digitVal b + digitVal c < 2 ^ 64" by simp
  moreover have "decimalValue [a, b, c] = 100 * digitVal a + 10 * digitVal b + digitVal c"
    by (simp add: decimalValue_def)
  ultimately show ?thesis
    using \<open>isDigit a\<close> \<open>isDigit b\<close> \<open>isDigit c\<close> by (simp add: ParseUint_def)
qed

text \<open>
  Claim C2. A position string of the form \<open>DDMMSSH DDDMMSSH\<close> (thirteen decimal digits,
  a latitude hemisphere N or S, one space, a longitude hemisphere E or W) decodes to the
  Point whose latitude is deg + min/60 + sec/3600, negated for S, and whose longitude is
  deg + min/60 + sec/3600, negated for W. The Point is the pair (longitude, latitude).
\<close>

theorem parseLatLng_valid_position:
  assumes "list_all isDigit [a, b, c, d, e, f, g, h, i, j, k, l, m]"
    and "ns = CHR ''N'' \<or> ns = CHR ''S''"
    and "ew = CHR ''E'' \<or> ew = CHR ''W''"
  shows "parseLatLng [a, b, c, d, e, f, ns, CHR '' '', g, h, i, j, k, l, m, ew] =
     Inr ((if ew = CHR ''W'' then - 1 else 1) *
            (real (100 * digitVal g + 10 * digitVal h + digitVal i)
             + real (10 * digitVal j + digitVal k) / 60
             + real (10 * digitVal l + digitVal m) / 3600),
          (if ns = CHR ''S'' then - 1 else 1) *
            (real (10 * digitVal a + digitVal b)
             + real (10 * digitVal c + digitVal d) / 60
             + real (10 * digitVal e + digitVal f) / 3600))"
  using assms unfolding parseLatLng_def slice_def
  by (auto simp add: ParseUint_two ParseUint_three Let_def)

theorem parseLatLng_valid_position_witness:
  "list_all isDigit ''5022570033739'' \<and>
   parseLatLng ''502257N 0033739W'' = Inr (- (3 + 37 / 60 + 39 / 3600), 50 + 22 / 60 + 57 / 3600)"
  using parseLatLng_valid_position
          [of "CHR ''5''" "CHR ''0''" "CHR ''2''" "CHR ''2''" "CHR ''5''" "CHR ''7''"
              "CHR ''0''" "CHR ''0''" "CHR ''3''" "CHR ''3''" "CHR ''7''" "CHR ''3''" "CHR ''9''"
              "CHR ''N''" "CHR ''W''"]
  by (simp add: isDigit_def digitVal_def)

text \<open>
  Claim C7. The position decoder returns its format error exactly when the length is
  not 16, or the byte at offset 7 is not a space, or one of the six digit groups is not
  accepted as an unsigned integer, or the latitude hemisphere is neither N nor S, or the
  longitude hemisphere is neither E nor W. On every other input it returns a Point.
\<close>

theorem parseLatLng_fails_iff_malformed:
  "(parseLatLng str = Inl (BadPoint str)) = malformedPosition str \<and>
   (\<exists>p. parseLatLng str = Inr p) = (\<not> malformedPosition str)"
  unfolding parseLatLng_def malformedPosition_def Let_def by (simp; blast)

theorem parseLatLng_fails_iff_malformed_witness:
  "malformedPosition ''502257X 0033739W'' \<and>
   parseLatLng ''502257X 0033739W'' = Inl (BadPoint ''502257X 0033739W'') \<and>
   \<not> malformedPosition ''502257N 0033739W'' \<and>
   (\<exists>p. parseLatLng ''502257N 0033739W'' = Inr p)"
  using parseLatLng_fails_iff_malformed [of "''502257X 0033739W''"]
        parseLatLng_fails_iff_malformed [of "''502257N 0033739W''"]
  by (simp add: malformedPosition_def digit_eval)

text \<open>
  Claim C9. The repository holds two copies of the position decoder. They do not compute
  the same function: the copy in part_003 divides the seconds by 2600 where airspace.go
  divides by 3600, so one second of latitude decodes to 1/3600 degree in one and to
  1/2600 degree in the other.
\<close>

theorem parseLatLng_copies_differ:
  "parseLatLng ''000001N 0000000E'' = Inr (0, 1 / 3600) \<and>
   parseLatLng_part_003 ''000001N 0000000E'' = Inr (0, 1 / 2600) \<and>
   parseLatLng ''000001N 0000000E'' \<noteq> parseLatLng_part_003 ''000001N 0000000E''"
  by (simp add: parseLatLng_def parseLatLng_part_003_def digit_eval)

theorem parseLatLng_copies_differ_witness:
  "Lat (projr (parseLatLng ''000001N 0000000E'')) * 3600 = 1 \<and>
   Lat (projr (parseLatLng_part_003 ''000001N 0000000E'')) * 2600 = 1"
  using parseLatLng_copies_differ by (simp add: Lat_def)

section \<open>Properties of the classification predicates\<close>

text \<open>
  Claim C8. ClearanceRequired holds exactly when the class is one of A, B, C, D, E or the
  type is one of ATZ, AWY, CTA, CTR, MATZ, P, R, RAT, RMZ, TMA, TRA, TMZ. Danger holds
  exactly when the type is one of AIAA, D, D_OTHER, DZ, GLIDER, HIRTA, LASER, NOATZ, UL.
  The comparison is exact on the bytes: a class D control zone requires clearance, a
  class G feature of type OTHER does not, and neither does a lower-case class d.
\<close>

theorem classification_tables:
  "ClearanceRequired ft =
     (f_Class ft \<in> {''A'', ''B'', ''C'', ''D'', ''E''} \<or>
      f_Type ft \<in> {''ATZ'', ''AWY'', ''CTA'', ''CTR'', ''MATZ'', ''P'', ''R'', ''RAT'', ''RMZ'',
                    ''TMA'', ''TRA'', ''TMZ''}) \<and>
   Danger ft =
     (f_Type ft \<in> {''AIAA'', ''D'', ''D_OTHER'', ''DZ'', ''GLIDER'', ''HIRTA'', ''LASER'',
                    ''NOATZ'', ''UL''}) \<and>
   ClearanceRequired \<lparr>f_ID = [], f_Name = [], f_Type = ''CTR'', f_Class = ''D'', f_Geometry = []\<rparr> \<and>
   \<not> ClearanceRequired \<lparr>f_ID = [], f_Name = [], f_Type = ''OTHER'', f_Class = ''G'', f_Geometry = []\<rparr> \<and>
   \<not> ClearanceRequired \<lparr>f_ID = [], f_Name = [], f_Type = ''ctr'', f_Class = ''d'', f_Geometry = []\<rparr>"
  by (simp add: ClearanceRequired_def Danger_def lookup_def prohibitedAirspaceClasses_def
      prohibitedTypes_def dangerTypes_def)

section \<open>Properties of the arc rasterizer\<close>

text \<open>
  Claim C3. For every centre, radius, start point, end point and direction the output of
  the arc rasterizer is non-empty and its last element is the end point \<open>to\<close>. When the
  bearings of the start and of the end point coincide the output is the single point
  \<open>to\<close>.
\<close>

theorem arcToPolygon_ends_at_to:
  "arcToPolygon lib centre radius initialPoint to dir \<noteq> [] \<and>
   last (arcToPolygon lib centre radius initialPoint to dir) = to \<and>
   (geo_Bearing lib centre initialPoint = geo_Bearing lib centre to \<longrightarrow>
      arcToPolygon lib centre radius initialPoint to dir = [to])"
proof -
  have "geo_Bearing lib centre initialPoint = geo_Bearing lib centre to \<Longrightarrow>
        arcToPolygon lib centre radius initialPoint to dir = [to]"
    by (subst arcToPolygon_def) (simp add: Let_def arcAngles_def arcLoop.simps)
  then show ?thesis by (simp add: arcToPolygon_def Let_def)
qed

theorem arcToPolygon_ends_at_to_witness:
  "arcToPolygon exampleLibrary (0, 51) 10000 (0, 52) (0, 52) 1 = [(0, 52)] \<and>
   last (arcToPolygon exampleLibrary (0, 51) 10000 (0, 52) (1, 51) (- 1)) = (1, 51)"
  using arcToPolygon_ends_at_to [of exampleLibrary "(0, 51)" 10000 "(0, 52)" "(0, 52)" 1]
        arcToPolygon_ends_at_to [of exampleLibrary "(0, 51)" 10000 "(0, 52)" "(1, 51)" "- 1"]
  by simp

lemma arcLoop_steps:
  "\<exists>n. \<not> dir * (a + real n * (dir * 10)) < dir * finalAngleDeg \<and>
       (\<forall>k<n. dir * (a + real k * (dir * 10)) < dir * finalAngleDeg) \<and>
       length (arcLoop lib centre radius dir finalAngleDeg a poly) = length poly + n"
proof (induction lib centre radius dir finalAngleDeg a poly rule: arcLoop.induct)
  case (1 lib centre radius dir finalAngleDeg a poly)
  show ?case
  proof (cases "dir * a < dir * finalAngleDeg")
    case False
    then have "length (arcLoop lib centre radius dir finalAngleDeg a poly) = length poly + 0"
      by (simp add: arcLoop.simps)
    with False show ?thesis by (intro exI [of _ 0]) simp
  next
    case True
    from 1 [OF True] obtain n where
      n1: "\<not> dir * (a + dir * 10 + real n * (dir * 10)) < dir * finalAngleDeg" and
      n2: "\<forall>k<n. dir * (a + dir * 10 + real k * (dir * 10)) < dir * finalAngleDeg" and
      n3: "length (arcLoop lib centre radius dir finalAngleDeg (a + dir * 10)
             (poly @ [destinationPoint lib centre a radius]))
           = length (poly @ [destinationPoint lib centre a radius]) + n"
      by blast
    have e: "\<And>k. a + dir * 10 + real k * (dir * 10) = a + real (Suc k) * (dir * 10)"
      by (simp add: algebra_simps)
    have "\<not> dir * (a + real (Suc n) * (dir * 10)) < dir * finalAngleDeg"
      using n1 unfolding e .
    moreover have "\<forall>k<Suc n. dir * (a + real k * (dir * 10)) < dir * finalAngleDeg"
    proof (intro allI impI)
      fix k assume "k < Suc n"
      show "dir * (a + real k * (dir * 10)) < dir * finalAngleDeg"
      proof (cases k)
        case 0
        then show ?thesis using True by simp
      next
        case (Suc j)
        then have "j < n" using \<open>k < Suc n\<close> by simp
        then show ?thesis using n2 Suc unfolding e by blast
      qed
    qed
    moreover have
      "length (arcLoop lib centre radius dir finalAngleDeg a poly) = length poly + Suc n"
      using True n3 by (subst arcLoop.simps) simp
    ultimately show ?thesis by blast
  qed
qed

lemma sin_one_degree: "0 < sin (pi / 180 :: real)"
  by (rule sin_gt_zero) simp_all

lemma bearing_north: "sphericalBearing (0, 0) (0, 1) = 0"
  using sin_one_degree
  by (simp add: sphericalBearing_def Let_def toRadians_def toDegrees_def Atan2_def Lon_def Lat_def)

lemma bearing_east: "sphericalBearing (0, 0) (1, 0) = 90"
  using sin_one_degree
  by (simp add: sphericalBearing_def Let_def toRadians_def toDegrees_def Atan2_def Lon_def Lat_def)

text \<open>
  Claim C4. The bearing-stepping loop of the arc rasterizer terminates for every centre,
  radius, start point, end point and direction: starting from the normalised start
  bearing and adding the step \<open>dir * 10\<close> each time, the loop condition
  \<open>dir * a < dir * finalAngleDeg\<close> fails after some finite number \<open>n\<close> of steps, having
  held at every earlier step, and the output then has \<open>n\<close> rasterized points followed by
  the end point.
\<close>

theorem arcToPolygon_loop_terminates:
  "\<exists>n. \<not> dir * (fst (arcAngles lib centre initialPoint to dir) + real n * (dir * 10))
           < dir * snd (arcAngles lib centre initialPoint to dir) \<and>
       (\<forall>k<n. dir * (fst (arcAngles lib centre initialPoint to dir) + real k * (dir * 10))
           < dir * snd (arcAngles lib centre initialPoint to dir)) \<and>
       length (arcToPolygon lib centre radius initialPoint to dir) = Suc n"
  using arcLoop_steps [of dir "fst (arcAngles lib centre initialPoint to dir)"
          "snd (arcAngles lib centre initialPoint to dir)" lib centre radius "[]"]
  by (simp add: arcToPolygon_def Let_def)

text \<open>
  A quarter turn clockwise from north to east around the origin: the loop runs nine
  times (bearings 0, 10, ..., 80) and the output has ten points.
\<close>

theorem arcToPolygon_loop_terminates_witness:
  "length (arcToPolygon exampleLibrary (0, 0) 10000 (0, 1) (1, 0) 1) = 10"
proof -
  have ang: "arcAngles exampleLibrary (0, 0) (0, 1) (1, 0) 1 = (0, 90)"
    by (simp add: arcAngles_def exampleLibrary_def bearing_north bearing_east)
  from arcToPolygon_loop_terminates [of 1 exampleLibrary "(0, 0)" "(0, 1)" "(1, 0)" 10000]
  obtain n where
    a: "\<not> real n * 10 < 90" and
    b: "\<forall>k<n. real k * 10 < 90" and
    c: "length (arcToPolygon exampleLibrary (0, 0) 10000 (0, 1) (1, 0) 1) = Suc n"
    unfolding ang by auto
  from a have "9 \<le> n" by simp
  moreover have "n \<le> 9"
  proof (rule ccontr)
    assume "\<not> n \<le> 9"
    then have "9 < n" by simp
    with b have "real 9 * 10 < 90" by blast
    then show False by simp
  qed
  ultimately show ?thesis using c by simp
qed

section \<open>Properties of the height decoder\<close>


















section \<open>Properties of the containment query engine\<close>

lemma mercator_equator:
  "sphericalMercator r (x, 0) = (r * pi / 180 * x, 0)"
proof -
  have "(90 + 0) * pi / 360 = pi / 4" by simp
  then show ?thesis
    by (simp add: sphericalMercator_def Lon_def Lat_def tan_45)
qed

lemma distance_on_equator:
  "planar_Distance exampleLibrary (project_ToMercator exampleLibrary (5, 0))
     (project_ToMercator exampleLibrary (0, 0)) = 6378137 * pi / 36"
proof -
  have d: "\<And>x :: real. euclideanDistance (x, 0) (0, 0) = \<bar>x\<bar>"
    by (simp add: euclideanDistance_def)
  have "planar_Distance exampleLibrary (project_ToMercator exampleLibrary (5, 0))
          (project_ToMercator exampleLibrary (0, 0))
        = euclideanDistance (6378137 * pi / 180 * 5, 0) (0, 0)"
    by (simp add: exampleLibrary_def mercator_equator)
  also have "\<dots> = \<bar>6378137 * pi / 180 * 5\<bar>" by (rule d)
  also have "\<dots> = 6378137 * pi / 36" by simp
  finally show ?thesis .
qed

lemma five_east_in_square: "evenOddContains tenDegreeSquare (5, 0)"
  by (simp add: evenOddContains_def tenDegreeSquare_def edgeCrosses_def)

lemma far_from_origin: "(1852 :: real) < 6378137 * pi / 36"
  using pi_ge_two by simp

text \<open>
  Claim C6, amended. For a Volume whose Circle has a non-zero radius R and centre C, the
  containment test compares the planar distance between the Mercator projections of
  the query point and of C with R. A point at distance exactly R is enclosed. A point
  at a distance greater than R is not enclosed by the circle; the test then returns
  what the polygon test returns, so the point is excluded exactly when the Volume's
  Polygon is empty or does not contain it.
\<close>

theorem isEnclosedBy_circle_boundary:
  assumes "c_Radius (v_Circle vol) \<noteq> 0"
  shows
    "(planar_Distance lib (project_ToMercator lib p) (project_ToMercator lib (c_Centre (v_Circle vol)))
        = c_Radius (v_Circle vol) \<longrightarrow> isEnclosedBy lib p vol) \<and>
     (c_Radius (v_Circle vol)
        < planar_Distance lib (project_ToMercator lib p) (project_ToMercator lib (c_Centre (v_Circle vol)))
      \<longrightarrow> isEnclosedBy lib p vol = (v_Polygon vol \<noteq> [] \<and> planar_RingContains lib (v_Polygon vol) p))"
  using assms by (auto simp add: isEnclosedBy_def)

theorem isEnclosedBy_circle_boundary_witness:
  "isEnclosedBy exampleLibrary (5, 0) (exampleVolume (6378137 * pi / 36) []) \<and>
   \<not> isEnclosedBy exampleLibrary (5, 0) (exampleVolume 1852 [])"
proof -
  have nz: "c_Radius (v_Circle (exampleVolume (6378137 * pi / 36) [])) \<noteq> 0"
    by (simp add: exampleVolume_def)
  have nz2: "c_Radius (v_Circle (exampleVolume 1852 [])) \<noteq> 0"
    by (simp add: exampleVolume_def)
  show ?thesis
    using isEnclosedBy_circle_boundary [OF nz, of exampleLibrary "(5, 0)"]
      isEnclosedBy_circle_boundary [OF nz2, of exampleLibrary "(5, 0)"]
      distance_on_equator far_from_origin
    by (simp add: exampleVolume_def)
qed

text \<open>
  The claim as stated, that every point beyond the radius is excluded, fails for a
  Volume that carries a ring as well: the point 5 degrees east of the origin is more
  than one nautical mile from the centre and still enclosed, because it lies in the
  ring.
\<close>

theorem isEnclosedBy_circle_counterexample:
  "c_Radius (v_Circle (exampleVolume 1852 tenDegreeSquare)) \<noteq> 0 \<and>
   c_Radius (v_Circle (exampleVolume 1852 tenDegreeSquare))
     < planar_Distance exampleLibrary (project_ToMercator exampleLibrary (5, 0))
         (project_ToMercator exampleLibrary (c_Centre (v_Circle (exampleVolume 1852 tenDegreeSquare)))) \<and>
   isEnclosedBy exampleLibrary (5, 0) (exampleVolume 1852 tenDegreeSquare)"
proof -
  have "planar_RingContains exampleLibrary tenDegreeSquare (5, 0)"
    by (simp add: exampleLibrary_def five_east_in_square)
  moreover have "tenDegreeSquare \<noteq> []" by (simp add: tenDegreeSquare_def)
  ultimately show ?thesis
    using far_from_origin distance_on_equator
    by (simp add: isEnclosedBy_def exampleVolume_def)
qed

text \<open>
  Claim C10. The containment test is the plain disjunction of the circle test (radius
  non-zero and projected distance at most the radius) and the ring test (ring non-empty
  and containing the point): a Volume with both shapes matches a point in either. A
  Volume with radius zero and an empty ring encloses no point and is never a member of
  the result of EnclosingVolumes, whose members are exactly the enclosing Volumes of
  the given features.
\<close>

theorem isEnclosedBy_disjunction:
  "isEnclosedBy lib p vol =
     ((c_Radius (v_Circle vol) \<noteq> 0 \<and>
       planar_Distance lib (project_ToMercator lib p) (project_ToMercator lib (c_Centre (v_Circle vol)))
         \<le> c_Radius (v_Circle vol)) \<or>
      (v_Polygon vol \<noteq> [] \<and> planar_RingContains lib (v_Polygon vol) p)) \<and>
   (c_Radius (v_Circle vol) = 0 \<and> v_Polygon vol = [] \<longrightarrow>
      \<not> isEnclosedBy lib p vol \<and> vol \<notin> set (EnclosingVolumes lib p features)) \<and>
   (v \<in> set (EnclosingVolumes lib p features)) =
     (\<exists>kf \<in> set features. v \<in> set (f_Geometry (snd kf)) \<and> isEnclosedBy lib p v)"
  by (auto simp add: isEnclosedBy_def EnclosingVolumes_def)

theorem isEnclosedBy_disjunction_witness:
  "isEnclosedBy exampleLibrary (5, 0) (exampleVolume 1852 tenDegreeSquare) \<and>
   isEnclosedBy exampleLibrary (5, 0) (exampleVolume (6378137 * pi / 36) tenDegreeSquare) \<and>
   \<not> isEnclosedBy exampleLibrary (5, 0) (exampleVolume 0 []) \<and>
   EnclosingVolumes exampleLibrary (5, 0)
     [(''f'', \<lparr>f_ID = ''f'', f_Name = ''F'', f_Type = ''CTR'', f_Class = ''D'',
               f_Geometry = [exampleVolume 0 [], exampleVolume 1852 tenDegreeSquare]\<rparr>)]
     = [exampleVolume 1852 tenDegreeSquare]"
proof -
  have r: "planar_RingContains exampleLibrary tenDegreeSquare (5, 0)"
    by (simp add: exampleLibrary_def five_east_in_square)
  have ne: "tenDegreeSquare \<noteq> []" by (simp add: tenDegreeSquare_def)
  have a: "isEnclosedBy exampleLibrary (5, 0) (exampleVolume 1852 tenDegreeSquare)"
    using isEnclosedBy_disjunction [of exampleLibrary "(5, 0)" "exampleVolume 1852 tenDegreeSquare"] r ne
    by (simp add: exampleVolume_def)
  have b: "isEnclosedBy exampleLibrary (5, 0) (exampleVolume (6378137 * pi / 36) tenDegreeSquare)"
    using isEnclosedBy_disjunction [of exampleLibrary "(5, 0)" "exampleVolume (6378137 * pi / 36) tenDegreeSquare"] r ne
    by (simp add: exampleVolume_def)
  have c: "\<not> isEnclosedBy exampleLibrary (5, 0) (exampleVolume 0 [])"
    using isEnclosedBy_disjunction [of exampleLibrary "(5, 0)" "exampleVolume 0 []"]
    by (simp add: exampleVolume_def)
  show ?thesis using a b c by (simp add: EnclosingVolumes_def)
qed

section \<open>Properties of the normaliser\<close>

lemma processLine_fails:
  "\<exists>l \<in> set ls. malformed l \<Longrightarrow> failsOnCoordinate (processLine b ls vol currentPos)"
proof (induction ls arbitrary: vol currentPos)
  case Nil
  then show ?case by simp
next
  case (Cons l ls)
  show ?case
  proof (cases "parseLatLng l")
    case (Inl e)
    then show ?thesis by (simp add: failsOnCoordinate_def)
  next
    case (Inr p)
    then have "\<not> malformed l" by (simp add: malformed_def)
    with Cons.prems have "\<exists>l \<in> set ls. malformed l" by simp
    then show ?thesis using Cons.IH Inr by simp
  qed
qed

lemma processLine_error:
  "processLine b ls vol currentPos = Inl e \<Longrightarrow> isCoordinateError e"
  by (induction ls arbitrary: vol currentPos) (auto split: sum.splits)

lemma processPrimitive_error:
  "processPrimitive lib b vol currentPos = Inl e \<Longrightarrow> isCoordinateError e"
  by (auto simp add: processPrimitive_def processCircle_def processArc_def Let_def
      split: sum.splits if_splits dest: processLine_error)

lemma processPrimitive_fails:
  assumes "rejectedPrimitive b"
  shows "failsOnCoordinate (processPrimitive lib b vol currentPos)"
proof (cases "processPrimitive lib b vol currentPos")
  case (Inl e)
  then show ?thesis using processPrimitive_error [OF Inl] by (simp add: failsOnCoordinate_def)
next
  case (Inr st)
  then obtain vol1 st1 where
    c: "processCircle lib b vol = Inr vol1" and
    l: "processLine b (b_Line b) vol1 currentPos = Inr st1" and
    a: "isl (processArc lib b (fst st1) (snd st1)) = False"
    by (auto simp add: processPrimitive_def split: sum.splits)
  from c have "\<not> (circle_Radius (b_Circle b) \<noteq> [] \<and> malformed (circle_Centre (b_Circle b)))"
    by (auto simp add: processCircle_def malformed_def split: if_splits sum.splits)
  moreover from l have "\<not> list_ex malformed (b_Line b)"
    using processLine_fails [of "b_Line b" b vol1 currentPos]
    by (auto simp add: list_ex_iff failsOnCoordinate_def)
  moreover from a have "\<not> (arc_Radius (b_Arc b) \<noteq> [] \<and> malformed (arc_To (b_Arc b)))"
    by (auto simp add: processArc_def malformed_def Let_def split: if_splits sum.splits)
  ultimately show ?thesis using assms unfolding rejectedPrimitive_def by blast
qed

lemma processBoundary_fails:
  "\<exists>b \<in> set bs. rejectedPrimitive b \<Longrightarrow> failsOnCoordinate (processBoundary lib bs vol currentPos)"
proof (induction bs arbitrary: vol currentPos)
  case Nil
  then show ?case by simp
next
  case (Cons b bs)
  show ?case
  proof (cases "processPrimitive lib b vol currentPos")
    case (Inl e)
    then show ?thesis using processPrimitive_error [OF Inl] by (simp add: failsOnCoordinate_def)
  next
    case (Inr st)
    then have "\<not> rejectedPrimitive b"
      using processPrimitive_fails [of b lib vol currentPos] by (auto simp add: failsOnCoordinate_def)
    with Cons.prems have "\<exists>b \<in> set bs. rejectedPrimitive b" by simp
    then show ?thesis using Cons.IH Inr by simp
  qed
qed

lemma processBoundary_error:
  "processBoundary lib bs vol currentPos = Inl e \<Longrightarrow> isCoordinateError e"
  by (induction bs arbitrary: vol currentPos)
     (auto split: sum.splits dest: processPrimitive_error)

lemma processGeometry_error:
  "processGeometry lib g feat = Inl e \<Longrightarrow> isCoordinateError e"
  by (auto simp add: processGeometry_def Let_def dest: processBoundary_error)

lemma processGeometry_fails:
  "\<exists>b \<in> set (g_Boundary g). rejectedPrimitive b \<Longrightarrow> failsOnCoordinate (processGeometry lib g feat)"
  by (simp add: processGeometry_def Let_def processBoundary_fails)

lemma processGeometries_fails:
  "\<exists>g \<in> set gs. \<exists>b \<in> set (g_Boundary g). rejectedPrimitive b \<Longrightarrow>
   failsOnCoordinate (processGeometries lib gs feat)"
proof (induction gs arbitrary: feat)
  case Nil
  then show ?case by simp
next
  case (Cons g gs)
  show ?case
  proof (cases "processGeometry lib g feat")
    case (Inl e)
    then show ?thesis
      using processGeometry_error [OF Inl] by (simp add: failsOnCoordinate_def)
  next
    case (Inr v)
    then have "\<not> (\<exists>b \<in> set (g_Boundary g). rejectedPrimitive b)"
      using processGeometry_fails [of g lib feat] by (auto simp add: failsOnCoordinate_def)
    with Cons.prems have "\<exists>g \<in> set gs. \<exists>b \<in> set (g_Boundary g). rejectedPrimitive b" by simp
    then show ?thesis using Cons.IH Inr by simp
  qed
qed

lemma processGeometries_error:
  "processGeometries lib gs feat = Inl e \<Longrightarrow> isCoordinateError e"
  by (induction gs arbitrary: feat) (auto split: sum.splits dest: processGeometry_error)

lemma normaliseFrom_fails:
  "\<exists>f \<in> set fs. \<exists>g \<in> set (a_Geometry f). \<exists>b \<in> set (g_Boundary g). rejectedPrimitive b \<Longrightarrow>
   failsOnCoordinate (normaliseFrom lib i fs features)"
proof (induction fs arbitrary: i features)
  case Nil
  then show ?case by simp
next
  case (Cons f fs)
  define feat where "feat = \<lparr>f_ID = resolveFeatureID lib (a_ID f) (a_Name f) i, f_Name = a_Name f,
        f_Type = resolveAirspaceType (a_Type f) (a_LocalType f),
        f_Class = a_Class f, f_Geometry = []\<rparr>"
  show ?case
  proof (cases "processGeometries lib (a_Geometry f) feat")
    case (Inl e)
    then show ?thesis
      using processGeometries_error [OF Inl] by (simp add: failsOnCoordinate_def Let_def feat_def)
  next
    case (Inr feat1)
    then have "\<not> (\<exists>g \<in> set (a_Geometry f). \<exists>b \<in> set (g_Boundary g). rejectedPrimitive b)"
      using processGeometries_fails [of "a_Geometry f" lib feat]
      by (auto simp add: failsOnCoordinate_def)
    with Cons.prems have
      "\<exists>f \<in> set fs. \<exists>g \<in> set (a_Geometry f). \<exists>b \<in> set (g_Boundary g). rejectedPrimitive b"
      by simp
    then show ?thesis using Cons.IH Inr by (simp add: Let_def feat_def)
  qed
qed

lemma primitivesOf_iff:
  "list_ex rejectedPrimitive (primitivesOf a) =
   (\<exists>f \<in> set (Airspace a). \<exists>g \<in> set (a_Geometry f). \<exists>b \<in> set (g_Boundary g). rejectedPrimitive b)"
  by (auto simp add: primitivesOf_def list_ex_iff)

text \<open>
  Claim C1, amended. If the document decoded from the input holds a boundary primitive
  with a malformed centre of a circle that has a radius, or a malformed point of a line,
  or a malformed end point of an arc that has a radius, then Decode returns an error of
  that coordinate and no feature list.
\<close>

theorem Decode_fails_on_rejected_primitive:
  assumes "yaml_Unmarshal lib data = Some a"
    and "list_ex rejectedPrimitive (primitivesOf a)"
  shows "failsOnCoordinate (Decode lib data)"
  using assms normaliseFrom_fails [of "Airspace a" lib 0 "[]"]
  by (simp add: Decode_def normalise_def primitivesOf_iff)

lemma parse_ok: "parseLatLng ''572153N 0015835W'' = Inr (- (1 + 58 / 60 + 35 / 3600), 57 + 21 / 60 + 53 / 3600)"
  by (simp add: parseLatLng_def digit_eval)

lemma not_malformed_ok: "\<not> malformed ''572153N 0015835W''"
  by (simp add: malformed_def parse_ok)

lemma parse_short: "parseLatLng ''5721N 00158W'' = Inl (BadPoint ''5721N 00158W'')"
  by (simp add: parseLatLng_def)

lemma malformed_short: "malformed ''5721N 00158W''"
  by (simp add: malformed_def parse_short)

lemma malformed_words: "malformed ''fifty north''"
  by (simp add: malformed_def parseLatLng_def)

theorem Decode_fails_on_rejected_primitive_witness:
  "rejectedPrimitive lineWithBadPoint \<and>
   Decode (exampleLibrary\<lparr>yaml_Unmarshal := [''airspace: ...'' \<mapsto> singleVolumeDocument [lineWithBadPoint]]\<rparr>)
      ''airspace: ...''
     = Inl (BadLine lineWithBadPoint (BadPoint ''5721N 00158W''))"
proof -
  let ?lib = "exampleLibrary\<lparr>yaml_Unmarshal := [''airspace: ...'' \<mapsto> singleVolumeDocument [lineWithBadPoint]]\<rparr>"
  have r: "rejectedPrimitive lineWithBadPoint"
    by (simp add: rejectedPrimitive_def lineWithBadPoint_def malformed_short)
  have u: "yaml_Unmarshal ?lib ''airspace: ...'' = Some (singleVolumeDocument [lineWithBadPoint])"
    by simp
  have p: "list_ex rejectedPrimitive (primitivesOf (singleVolumeDocument [lineWithBadPoint]))"
    using r by (simp add: primitivesOf_def singleVolumeDocument_def)
  have "failsOnCoordinate (Decode ?lib ''airspace: ...'')"
    by (rule Decode_fails_on_rejected_primitive [OF u p])
  moreover have "Decode ?lib ''airspace: ...'' = Inl (BadLine lineWithBadPoint (BadPoint ''5721N 00158W''))"
    by (simp add: Decode_def normalise_def singleVolumeDocument_def lineWithBadPoint_def
        emptyCircle_def emptyArc_def processGeometry_def processPrimitive_def processCircle_def
        processArc_def Let_def parse_ok parse_short)
  ultimately show ?thesis using r by simp
qed

text \<open>
  The claim as stated covers every coordinate string of a primitive. Decode succeeds
  on a document whose only primitive is a circle with a malformed centre and no radius,
  and on a document whose only primitive is an arc with a malformed centre: the first
  is never looked at, and the error of the second is dropped and the arc drawn around
  the zero Point.
\<close>

theorem Decode_accepts_malformed_coordinates:
  "hasMalformedCoordinate circleWithoutRadius \<and>
   \<not> isl (Decode (exampleLibrary\<lparr>yaml_Unmarshal :=
                 [''airspace: ...'' \<mapsto> singleVolumeDocument [circleWithoutRadius]]\<rparr>)
            ''airspace: ...'') \<and>
   map f_ID (projr (Decode (exampleLibrary\<lparr>yaml_Unmarshal :=
                 [''airspace: ...'' \<mapsto> singleVolumeDocument [circleWithoutRadius]]\<rparr>)
            ''airspace: ...'')) = [''aberdeen-cta''] \<and>
   hasMalformedCoordinate arcWithBadCentre \<and>
   \<not> isl (Decode (exampleLibrary\<lparr>yaml_Unmarshal :=
                 [''airspace: ...'' \<mapsto> singleVolumeDocument [arcWithBadCentre]]\<rparr>)
            ''airspace: ...'') \<and>
   map f_ID (projr (Decode (exampleLibrary\<lparr>yaml_Unmarshal :=
                 [''airspace: ...'' \<mapsto> singleVolumeDocument [arcWithBadCentre]]\<rparr>)
            ''airspace: ...'')) = [''aberdeen-cta'']"
proof -
  have 1: "hasMalformedCoordinate circleWithoutRadius"
    by (simp add: hasMalformedCoordinate_def circleWithoutRadius_def emptyCircle_def
        malformed_words)
  have 2: "hasMalformedCoordinate arcWithBadCentre"
    by (simp add: hasMalformedCoordinate_def arcWithBadCentre_def emptyArc_def malformed_words)
  have 3: "\<exists>vol. Decode (exampleLibrary\<lparr>yaml_Unmarshal :=
                 [''airspace: ...'' \<mapsto> singleVolumeDocument [circleWithoutRadius]]\<rparr>)
            ''airspace: ...''
           = Inr [\<lparr>f_ID = ''aberdeen-cta'', f_Name = ''ABERDEEN CTA'', f_Type = ''CTA'',
                   f_Class = ''D'', f_Geometry = [vol]\<rparr>]"
    by (simp add: Decode_def normalise_def singleVolumeDocument_def circleWithoutRadius_def
        emptyArc_def processGeometry_def processPrimitive_def processCircle_def processArc_def
        Let_def resolveFeatureID_def resolveAirspaceType_def exampleLibrary_def
        asciiTrimSpace_def isSpace_def)
  have 4: "\<exists>vol. Decode (exampleLibrary\<lparr>yaml_Unmarshal :=
                 [''airspace: ...'' \<mapsto> singleVolumeDocument [arcWithBadCentre]]\<rparr>)
            ''airspace: ...''
           = Inr [\<lparr>f_ID = ''aberdeen-cta'', f_Name = ''ABERDEEN CTA'', f_Type = ''CTA'',
                   f_Class = ''D'', f_Geometry = [vol]\<rparr>]"
    by (simp add: Decode_def normalise_def singleVolumeDocument_def arcWithBadCentre_def
        emptyCircle_def processGeometry_def processPrimitive_def processCircle_def processArc_def
        Let_def parse_ok resolveFeatureID_def resolveAirspaceType_def exampleLibrary_def
        asciiTrimSpace_def isSpace_def)
  show ?thesis using 1 2 3 4 by auto
qed

end
